theory Spec2Isabelle
  imports Main
begin

section \<open>Python values and host effects\<close>

text \<open>
  The commands of \<^verbatim>\<open>langkit/gdb/commands.py\<close> talk to the user and to the host
  debugger only through \<^verbatim>\<open>print\<close>, \<^verbatim>\<open>gdb.Breakpoint\<close> and \<^verbatim>\<open>gdb.execute\<close>.
  A run of a command is the list of these calls, in order, followed by how the command
  ended: by returning, or by a Python exception that leaves \<^verbatim>\<open>invoke\<close>. The calls to
  the host debugger are taken to return; an exception is one that the Python code of the
  command raises itself.
\<close>

datatype py_error = AttributeError | ValueError

datatype effect = Print string | Breakpoint string | Execute string

datatype outcome = Returned | Raised py_error

text \<open>\<^verbatim>\<open>str(n)\<close> for a Python integer: decimal digits, with a minus sign when negative.\<close>

fun digits :: "nat \<Rightarrow> string" where
  "digits n =
     (if n < 10 then [''0123456789'' ! n]
      else digits (n div 10) @ [''0123456789'' ! (n mod 10)])"

declare digits.simps [simp del]

definition str_int :: "int \<Rightarrow> string" where
  "str_int i = (if i < 0 then CHR ''-'' # digits (nat (- i)) else digits (nat i))"

text \<open>\<^verbatim>\<open>str.lower()\<close> on a byte string: the letters A to Z are mapped to a to z.\<close>

definition lower_char :: "char \<Rightarrow> char" where
  "lower_char c =
     (let n = (of_char c :: nat) in if 65 \<le> n \<and> n \<le> 90 then char_of (n + 32) else c)"

definition lower :: "string \<Rightarrow> string" where
  "lower s = map lower_char s"

text \<open>
  \<^verbatim>\<open>repr(c)\<close> for a string of one character: single quotes around the character, double
  quotes when the character is a single quote, a backslash escape for the backslash, tab,
  newline and carriage return, and a hexadecimal escape outside the printable ASCII range.
\<close>

definition hex_digit :: "nat \<Rightarrow> char" where
  "hex_digit n = ''0123456789abcdef'' ! n"

definition repr_char :: "char \<Rightarrow> string" where
  "repr_char c =
     (let n = (of_char c :: nat) in
      if n = 39 then [CHR 0x22, c, CHR 0x22]
      else [CHR 0x27] @
        (if n = 92 then [c, c]
         else if n = 9 then [CHR 0x5C, CHR ''t'']
         else if n = 10 then [CHR 0x5C, CHR ''n'']
         else if n = 13 then [CHR 0x5C, CHR ''r'']
         else if n < 32 \<or> 127 \<le> n
           then [CHR 0x5C, CHR ''x'', hex_digit (n div 16), hex_digit (n mod 16)]
         else [c]) @ [CHR 0x27])"


section \<open>The debug-information model and the decoded state\<close>

text \<open>
  The commands import their data from \<^verbatim>\<open>langkit.gdb.debug_info\<close> and receive the
  decoded state from \<^verbatim>\<open>context.decode_state\<close>. The types below carry exactly the
  attributes that \<^verbatim>\<open>commands.py\<close> reads from these objects. A location of the DSL
  sources (\<^verbatim>\<open>DSLLocation\<close>) is kept abstract as the type variable \<open>'loc\<close>; an attribute
  that may hold \<^verbatim>\<open>None\<close> in place of a location is an \<open>option\<close>.
\<close>

record line_range =
  first_line :: int
  last_line :: int

text \<open>
  Events of a scope, in the order of the generated code:
  \<^item> \<open>Binding dsl_name gen_name\<close>;
  \<^item> \<open>ExprStart expr_id expr_repr dsl_sloc line_no\<close>;
  \<^item> \<open>ExprDone expr_id line_no result_var\<close>;
  \<^item> a nested scope, which is an event of its parent.
\<close>

datatype 'loc event =
    Binding string string
  | ExprStart int string "'loc option" int
  | ExprDone int int string
  | SubScope "'loc scope"
and 'loc scope =
    Scope (line_range: line_range) (events: "'loc event list")

text \<open>
  A property is a scope with a name and a DSL location. The commands read its \<^verbatim>\<open>name\<close>,
  its \<^verbatim>\<open>dsl_sloc\<close>, its \<^verbatim>\<open>subscopes\<close> and, as for any scope, its \<^verbatim>\<open>events\<close>.
\<close>

record 'loc property =
  name :: string
  prop_dsl_sloc :: "'loc option"
  subscopes :: "'loc scope list"
  prop_events :: "'loc event list"

record 'loc debug_info =
  filename :: string
  properties :: "'loc property list"

record binding =
  dsl_name :: string
  gen_name :: string

text \<open>
  The evaluation of one expression in a decoded state. Its status is read through the
  attributes \<^verbatim>\<open>is_started\<close> and \<^verbatim>\<open>is_done\<close>, in that order; \<^verbatim>\<open>result_var\<close> is read
  only once \<^verbatim>\<open>is_done\<close> has been found true.
\<close>

record 'loc expression_evaluation =
  expr_id :: int
  expr_repr :: string
  dsl_sloc :: "'loc option"
  is_started :: bool
  is_done :: bool
  result_var :: string

text \<open>\<open>expressions\<close> lists the values of the \<^verbatim>\<open>expressions\<close> dictionary in its order.\<close>

record 'loc scope_state =
  scope :: "'loc scope"
  bindings :: "binding list"
  expressions :: "'loc expression_evaluation list"

record 'loc state =
  property :: "'loc property"
  scopes :: "'loc scope_state list"

text \<open>
  The operations of these classes that the commands call, as parameters:
  \<^verbatim>\<open>DSLLocation.parse\<close> (which may raise), \<^verbatim>\<open>DSLLocation.matches\<close>, the text
  \<^verbatim>\<open>format\<close> gives for a location, and the text it gives for an expression evaluation.
\<close>

record 'loc helpers =
  loc_parse :: "string \<Rightarrow> py_error + 'loc"
  loc_matches :: "'loc \<Rightarrow> 'loc \<Rightarrow> bool"
  loc_str :: "'loc \<Rightarrow> string"
  expr_str :: "'loc expression_evaluation \<Rightarrow> string"

text \<open>\<^verbatim>\<open>'{}'.format(x)\<close> for an attribute that holds a location or \<^verbatim>\<open>None\<close>.\<close>

definition format_loc :: "'loc helpers \<Rightarrow> 'loc option \<Rightarrow> string" where
  "format_loc h l = (case l of None \<Rightarrow> ''None'' | Some x \<Rightarrow> loc_str h x)"


section \<open>StatePrinter\<close>

text \<open>
  The printer holds the selected frame, the state decoded from it and the two display
  options. The frame is the text \<^verbatim>\<open>str(frame.read_var(name))\<close> of each variable.
\<close>

record 'loc state_printer =
  frame :: "string \<Rightarrow> string"
  state :: "'loc state option"
  with_ellipsis :: bool
  with_locs :: bool

definition ellipsis_limit :: nat where
  "ellipsis_limit = 50"

definition StatePrinter_init :: "(string \<Rightarrow> string) \<Rightarrow> 'loc state option \<Rightarrow> 'loc state_printer" where
  "StatePrinter_init fr st =
     \<lparr>frame = fr, state = st, with_ellipsis = True, with_locs = False\<rparr>"

definition loc_image :: "'loc state_printer \<Rightarrow> string \<Rightarrow> string" where
  "loc_image p var_name = (if with_locs p then '' ('' @ var_name @ '')'' else '''')"

definition value_image :: "'loc state_printer \<Rightarrow> string \<Rightarrow> string" where
  "value_image p var_name =
     (let val = frame p (lower var_name) in
      if with_ellipsis p \<and> length val > ellipsis_limit
      then take ellipsis_limit val @ ''...''
      else val)"

text \<open>
  \<^verbatim>\<open>print_info\<close> closes over the flag \<^verbatim>\<open>is_first\<close> of the scope being printed; here
  the flag travels with the output written so far.
\<close>

definition print_info :: "string \<Rightarrow> bool \<times> effect list \<Rightarrow> bool \<times> effect list" where
  "print_info s st =
     (case st of (is_first, out) \<Rightarrow>
        (False, (if is_first then out @ [Print ''''] else out) @ [Print s]))"

definition print_bindings ::
  "'loc state_printer \<Rightarrow> binding list \<Rightarrow> bool \<times> effect list \<Rightarrow> bool \<times> effect list" where
  "print_bindings p bs st =
     fold (\<lambda>b. print_info
             (dsl_name b @ loc_image p (gen_name b) @ '' = '' @ value_image p (gen_name b)))
          bs st"

definition print_expressions ::
  "'loc state_printer \<Rightarrow> 'loc expression_evaluation list \<Rightarrow>
   'loc expression_evaluation option \<times> bool \<times> effect list \<Rightarrow>
   'loc expression_evaluation option \<times> bool \<times> effect list" where
  "print_expressions p es acc =
     fold (\<lambda>e (last_started, st).
             if is_started e then (Some e, st)
             else if is_done e then
               (last_started,
                print_info (expr_repr e @ loc_image p (result_var e) @ '' -> ''
                            @ value_image p (result_var e)) st)
             else (last_started, st))
          es acc"

definition print_last_started ::
  "'loc helpers \<Rightarrow> 'loc expression_evaluation option \<Rightarrow> bool \<times> effect list \<Rightarrow>
   bool \<times> effect list" where
  "print_last_started h last_started st =
     (case last_started of
        None \<Rightarrow> st
      | Some e \<Rightarrow>
          (let st' = print_info (''Currently evaluating '' @ expr_repr e) st in
           case dsl_sloc e of
             None \<Rightarrow> st'
           | Some l \<Rightarrow> print_info (''from '' @ loc_str h l) st'))"

text \<open>One iteration of the loop over \<^verbatim>\<open>self.state.scopes\<close>.\<close>

definition run_scope ::
  "'loc helpers \<Rightarrow> 'loc state_printer \<Rightarrow> 'loc scope_state \<Rightarrow> effect list \<Rightarrow> effect list" where
  "run_scope h p scope_state out =
     (let st = print_bindings p (bindings scope_state) (True, out);
          (last_started, st) = print_expressions p (expressions scope_state) (None, st)
      in snd (print_last_started h last_started st))"

definition StatePrinter_run :: "'loc helpers \<Rightarrow> 'loc state_printer \<Rightarrow> effect list" where
  "StatePrinter_run h p =
     (case state p of
        None \<Rightarrow> [Print ''Selected frame is not in a property.'']
      | Some s \<Rightarrow>
          fold (run_scope h p) (scopes s)
            [Print (''Running '' @ name (property s)),
             Print (''from '' @ format_loc h (prop_dsl_sloc (property s)))])"


section \<open>StateCommand\<close>

text \<open>
  The loop over the flag characters \<^verbatim>\<open>arg[1:]\<close>: \<open>Inl c\<close> is the early return at the
  first character \<open>c\<close> that is no flag, \<open>Inr\<close> the printer once every flag is set.
\<close>

fun set_flags :: "'loc state_printer \<Rightarrow> string \<Rightarrow> char + 'loc state_printer" where
  "set_flags printer [] = Inr printer"
| "set_flags printer (c # cs) =
     (if c = CHR ''f'' then set_flags (printer\<lparr>with_ellipsis := False\<rparr>) cs
      else if c = CHR ''s'' then set_flags (printer\<lparr>with_locs := True\<rparr>) cs
      else Inl c)"

text \<open>
  \<open>fr\<close> is the frame \<^verbatim>\<open>gdb.selected_frame()\<close> gives and \<open>st\<close> the result of
  \<^verbatim>\<open>decode_state\<close> on it, both read when the printer is built.
\<close>

definition StateCommand_invoke ::
  "'loc helpers \<Rightarrow> (string \<Rightarrow> string) \<Rightarrow> 'loc state option \<Rightarrow> string \<Rightarrow> effect list" where
  "StateCommand_invoke h fr st arg =
     (let printer = StatePrinter_init fr st in
      if arg \<noteq> [] then
        (if hd arg \<noteq> CHR ''/'' then [Print ''Invalid argument'']
         else (case set_flags printer (tl arg) of
                 Inl c \<Rightarrow> [Print (''Invalid flag: '' @ repr_char c)]
               | Inr printer' \<Rightarrow> StatePrinter_run h printer'))
      else StatePrinter_run h printer)"


section \<open>BreakCommand\<close>

definition break_on_property :: "'loc debug_info \<Rightarrow> string \<Rightarrow> effect list" where
  "break_on_property di qualname =
     (let lower_prop = lower qualname in
      if lower_prop = [] then [Print ''Missing breakpoint specification'']
      else
        (case find (\<lambda>prop. lower (name prop) = lower_prop) (properties di) of
           None \<Rightarrow> [Print (''No such property: '' @ qualname)]
         | Some prop \<Rightarrow>
             (case subscopes prop of
                [] \<Rightarrow> [Print (name prop @ '' has no code'')]
              | s # _ \<Rightarrow>
                  [Breakpoint (filename di @ '':'' @ str_int (first_line (line_range s)))])))"

record 'loc match =
  match_prop :: "'loc property"
  match_dsl_sloc :: 'loc
  match_line_no :: int

text \<open>
  \<^verbatim>\<open>process_scope\<close> appends to the list \<^verbatim>\<open>matches\<close> of the enclosing function; the
  list is passed in and returned. \<open>q\<close> is the location that was asked for.
\<close>

fun process_scope ::
      "'loc helpers \<Rightarrow> 'loc \<Rightarrow> 'loc property \<Rightarrow> 'loc scope \<Rightarrow> 'loc match list \<Rightarrow> 'loc match list"
  and process_events ::
      "'loc helpers \<Rightarrow> 'loc \<Rightarrow> 'loc property \<Rightarrow> 'loc event list \<Rightarrow> 'loc match list \<Rightarrow> 'loc match list"
  and process_event ::
      "'loc helpers \<Rightarrow> 'loc \<Rightarrow> 'loc property \<Rightarrow> 'loc event \<Rightarrow> 'loc match list \<Rightarrow> 'loc match list"
where
  "process_scope h q prop (Scope lr es) matches = process_events h q prop es matches"
| "process_events h q prop [] matches = matches"
| "process_events h q prop (e # es) matches =
     process_events h q prop es (process_event h q prop e matches)"
| "process_event h q prop (SubScope s) matches = process_scope h q prop s matches"
| "process_event h q prop (ExprStart i r sloc ln) matches =
     (case sloc of
        None \<Rightarrow> matches
      | Some l \<Rightarrow>
          if loc_matches h l q
          then matches @ [\<lparr>match_prop = prop, match_dsl_sloc = l, match_line_no = ln\<rparr>]
          else matches)"
| "process_event h q prop (Binding dn gn) matches = matches"
| "process_event h q prop (ExprDone i ln rv) matches = matches"

definition collect_matches :: "'loc helpers \<Rightarrow> 'loc debug_info \<Rightarrow> 'loc \<Rightarrow> 'loc match list" where
  "collect_matches h di q =
     fold (\<lambda>prop matches. process_events h q prop (prop_events prop) matches) (properties di) []"

definition break_on_dsl_sloc ::
  "'loc helpers \<Rightarrow> 'loc debug_info \<Rightarrow> string \<Rightarrow> effect list \<times> outcome" where
  "break_on_dsl_sloc h di spec =
     (case loc_parse h spec of
        Inl err \<Rightarrow> ([], Raised err)
      | Inr q \<Rightarrow>
          (let matches = collect_matches h di q in
           if matches = [] then ([Print (''No match for '' @ loc_str h q)], Returned)
           else if length matches > 1 then
             (Print (''Multiple matches for '' @ loc_str h q @ '':'') #
              map (\<lambda>m. Print (''  In '' @ name (match_prop m) @ '', ''
                               @ loc_str h (match_dsl_sloc m))) matches,
              Returned)
           else
             ([Breakpoint (filename di @ '':'' @ str_int (match_line_no (hd matches)))],
              Returned)))"


section \<open>OutCommand\<close>

text \<open>
  Both lookups read \<^verbatim>\<open>state.scopes\<close> first, which raises \<^verbatim>\<open>AttributeError\<close> when
  \<^verbatim>\<open>state\<close> is \<^verbatim>\<open>None\<close>.
\<close>

fun lookup_current_scopes ::
  "'loc scope_state list \<Rightarrow> ('loc scope_state \<times> 'loc expression_evaluation) option" where
  "lookup_current_scopes [] = None"
| "lookup_current_scopes (scope_state # rest) =
     (case find is_started (rev (expressions scope_state)) of
        Some e \<Rightarrow> Some (scope_state, e)
      | None \<Rightarrow> lookup_current_scopes rest)"

definition lookup_current_expr ::
  "'loc state option \<Rightarrow>
   py_error + ('loc scope_state \<times> 'loc expression_evaluation) option" where
  "lookup_current_expr st =
     (case st of
        None \<Rightarrow> Inl AttributeError
      | Some s \<Rightarrow> Inr (lookup_current_scopes (rev (scopes s))))"

fun lookup_expr_scopes ::
  "'loc scope_state list \<Rightarrow> int \<Rightarrow> 'loc expression_evaluation option" where
  "lookup_expr_scopes [] eid = None"
| "lookup_expr_scopes (scope_state # rest) eid =
     (case find (\<lambda>e. expr_id e = eid) (expressions scope_state) of
        Some e \<Rightarrow> Some e
      | None \<Rightarrow> lookup_expr_scopes rest eid)"

definition lookup_expr ::
  "'loc state option \<Rightarrow> int \<Rightarrow> py_error + 'loc expression_evaluation option" where
  "lookup_expr st eid =
     (case st of
        None \<Rightarrow> Inl AttributeError
      | Some s \<Rightarrow> Inr (lookup_expr_scopes (scopes s) eid))"

text \<open>The scan for \<^verbatim>\<open>until_line_no\<close>: every matching \<^verbatim>\<open>ExprDone\<close> overwrites it.\<close>

definition find_until_line_no :: "'loc event list \<Rightarrow> int \<Rightarrow> int option" where
  "find_until_line_no es eid =
     fold (\<lambda>e until_line_no.
             case e of
               ExprDone i ln rv \<Rightarrow> if i = eid then Some ln else until_line_no
             | _ \<Rightarrow> until_line_no)
          es None"

definition error :: "string \<Rightarrow> effect" where
  "error msg = Print (''ERROR: '' @ msg @ '': something went wrong...'')"

text \<open>
  \<open>st\<close> is what \<^verbatim>\<open>decode_state()\<close> gives before the target is resumed; \<open>new_frame\<close>
  and \<open>new_state\<close> are the selected frame and its decoded state once
  \<^verbatim>\<open>gdb.execute\<close> has returned. Where the two properties are compared both states
  are known to be states (each lookup has read its \<^verbatim>\<open>scopes\<close>), so comparing them
  under \<open>map_option\<close> compares the properties themselves.
\<close>

definition OutCommand_invoke ::
  "'loc helpers \<Rightarrow> string \<Rightarrow> 'loc state option \<Rightarrow> 'loc state option \<Rightarrow>
   (string \<Rightarrow> string) \<Rightarrow> effect list \<times> outcome" where
  "OutCommand_invoke h arg st new_state new_frame =
     (if arg \<noteq> [] then ([Print ''This command takes no argument''], Returned)
      else
        (case lookup_current_expr st of
           Inl err \<Rightarrow> ([], Raised err)
         | Inr None \<Rightarrow> ([Print ''Not evaluating any expression currently''], Returned)
         | Inr (Some (scope_state, current_expr)) \<Rightarrow>
             (case find_until_line_no (events (scope scope_state)) (expr_id current_expr) of
                None \<Rightarrow>
                  ([Print (''ERROR: cannot find the end of evaluation for expression ''
                           @ expr_str h current_expr
                           @ ''. Code generation may have a bug.'')],
                   Returned)
              | Some until_line_no \<Rightarrow>
                  (let resumed = [Execute (''until '' @ str_int until_line_no)] in
                   case lookup_expr new_state (expr_id current_expr) of
                     Inl err \<Rightarrow> (resumed, Raised err)
                   | Inr new_expr \<Rightarrow>
                       if map_option property new_state \<noteq> map_option property st then
                         (resumed @ [error ''we landed in another property''], Returned)
                       else
                         (case new_expr of
                            None \<Rightarrow>
                              (resumed @ [error ''cannot find back the same expression''],
                               Returned)
                          | Some ne \<Rightarrow>
                              if \<not> is_done ne then
                                (resumed @ [error ''the expression is not evaluated yet''],
                                 Returned)
                              else
                                (resumed
                                 @ [Print (expr_repr current_expr @ '' evaluated to: ''
                                           @ new_frame (lower (result_var ne)))],
                                 Returned))))))"


section \<open>Descriptions of the results\<close>

text \<open>
  The texts one scope contributes to the trace, written without the flag \<^verbatim>\<open>is_first\<close>:
  one item for each binding, one for each expression that is done and not started, then
  the items for the last started expression.
\<close>

definition binding_item :: "'loc state_printer \<Rightarrow> binding \<Rightarrow> string" where
  "binding_item p b =
     dsl_name b @ loc_image p (gen_name b) @ '' = '' @ value_image p (gen_name b)"

definition done_item :: "'loc state_printer \<Rightarrow> 'loc expression_evaluation \<Rightarrow> string" where
  "done_item p e =
     expr_repr e @ loc_image p (result_var e) @ '' -> '' @ value_image p (result_var e)"

definition completed :: "'loc expression_evaluation list \<Rightarrow> 'loc expression_evaluation list" where
  "completed es = filter (\<lambda>e. \<not> is_started e \<and> is_done e) es"

definition current_items :: "'loc helpers \<Rightarrow> 'loc expression_evaluation list \<Rightarrow> string list" where
  "current_items h es =
     (let started = filter is_started es in
      if started = [] then []
      else (''Currently evaluating '' @ expr_repr (last started)) #
           (case dsl_sloc (last started) of
              None \<Rightarrow> []
            | Some l \<Rightarrow> [''from '' @ loc_str h l]))"

definition scope_items ::
  "'loc helpers \<Rightarrow> 'loc state_printer \<Rightarrow> 'loc scope_state \<Rightarrow> string list" where
  "scope_items h p scope_state =
     map (binding_item p) (bindings scope_state)
     @ map (done_item p) (completed (expressions scope_state))
     @ current_items h (expressions scope_state)"

definition with_blank :: "string list \<Rightarrow> effect list" where
  "with_blank items = (if items = [] then [] else Print [] # map Print items)"

text \<open>
  Every event of a tree of scopes that is not itself a scope, in the order of the
  generated code: a nested scope stands for its own events.
\<close>

fun flatten_scope :: "'loc scope \<Rightarrow> 'loc event list"
  and flatten_events :: "'loc event list \<Rightarrow> 'loc event list"
  and flatten_event :: "'loc event \<Rightarrow> 'loc event list"
where
  "flatten_scope (Scope lr es) = flatten_events es"
| "flatten_events [] = []"
| "flatten_events (e # es) = flatten_event e @ flatten_events es"
| "flatten_event (SubScope s) = flatten_scope s"
| "flatten_event (ExprStart i r sloc ln) = [ExprStart i r sloc ln]"
| "flatten_event (Binding dn gn) = [Binding dn gn]"
| "flatten_event (ExprDone i ln rv) = [ExprDone i ln rv]"

text \<open>
  The match an event gives for the location \<open>q\<close>: none unless it is an
  \<^verbatim>\<open>ExprStart\<close> that has a location, and that location matches \<open>q\<close>.
\<close>

definition start_match ::
  "'loc helpers \<Rightarrow> 'loc \<Rightarrow> 'loc property \<Rightarrow> 'loc event \<Rightarrow> 'loc match list" where
  "start_match h q prop e =
     (case e of
        ExprStart i r (Some l) ln \<Rightarrow>
          if loc_matches h l q
          then [\<lparr>match_prop = prop, match_dsl_sloc = l, match_line_no = ln\<rparr>]
          else []
      | _ \<Rightarrow> [])"

definition dsl_sloc_matches :: "'loc helpers \<Rightarrow> 'loc debug_info \<Rightarrow> 'loc \<Rightarrow> 'loc match list" where
  "dsl_sloc_matches h di q =
     concat (map (\<lambda>prop. concat (map (start_match h q prop) (flatten_events (prop_events prop))))
                 (properties di))"

text \<open>
  The generated lines of the \<^verbatim>\<open>ExprDone\<close> events of a list that carry the id
  \<open>eid\<close>, in the order of the events.
\<close>

definition done_lines :: "'loc event list \<Rightarrow> int \<Rightarrow> int list" where
  "done_lines es eid =
     concat (map (\<lambda>e. case e of
                         ExprDone i ln rv \<Rightarrow> if i = eid then [ln] else []
                       | _ \<Rightarrow> []) es)"


section \<open>A property under evaluation\<close>

text \<open>
  A property \<open>P\<close> with one inner scope holding the binding of \<open>x\<close> to \<open>X_1\<close>, the start
  of \<open>x + 1\<close> at line 10 and its end at line 12 with the result in \<open>R_1\<close>, stopped
  between the two. Locations are (file, line) pairs that match when they are equal.
\<close>

definition ex_helpers :: "(string \<times> int) helpers" where
  "ex_helpers =
     \<lparr>loc_parse = (\<lambda>s. if s = ''spec.py:128'' then Inr (''spec.py'', 128) else Inl ValueError),
      loc_matches = (\<lambda>l q. l = q),
      loc_str = (\<lambda>l. fst l @ '':'' @ str_int (snd l)),
      expr_str = expr_repr\<rparr>"

definition ex_scope :: "(string \<times> int) scope" where
  "ex_scope =
     Scope \<lparr>first_line = 9, last_line = 13\<rparr>
       [Binding ''x'' ''X_1'',
        ExprStart 1 ''x + 1'' (Some (''spec.py'', 128)) 10,
        ExprDone 1 12 ''R_1'']"

definition ex_property :: "(string \<times> int) property" where
  "ex_property =
     \<lparr>name = ''P'', prop_dsl_sloc = Some (''spec.py'', 127),
      subscopes = [ex_scope], prop_events = [SubScope ex_scope]\<rparr>"

definition ex_debug_info :: "(string \<times> int) debug_info" where
  "ex_debug_info = \<lparr>filename = ''gen.adb'', properties = [ex_property]\<rparr>"

definition ex_started :: "(string \<times> int) expression_evaluation" where
  "ex_started =
     \<lparr>expr_id = 1, expr_repr = ''x + 1'', dsl_sloc = Some (''spec.py'', 128),
      is_started = True, is_done = False, result_var = []\<rparr>"

definition ex_done :: "(string \<times> int) expression_evaluation" where
  "ex_done = ex_started\<lparr>is_started := False, is_done := True, result_var := ''R_1''\<rparr>"

definition ex_state :: "(string \<times> int) state" where
  "ex_state =
     \<lparr>property = ex_property,
      scopes = [\<lparr>scope = ex_scope,
                 bindings = [\<lparr>dsl_name = ''x'', gen_name = ''X_1''\<rparr>],
                 expressions = [ex_started]\<rparr>]\<rparr>"

definition ex_state_done :: "(string \<times> int) state" where
  "ex_state_done =
     \<lparr>property = ex_property,
      scopes = [\<lparr>scope = ex_scope,
                 bindings = [\<lparr>dsl_name = ''x'', gen_name = ''X_1''\<rparr>],
                 expressions = [ex_done]\<rparr>]\<rparr>"

definition ex_frame :: "string \<Rightarrow> string" where
  "ex_frame v = (if v = ''x_1'' then ''41'' else if v = ''r_1'' then ''42'' else ''<unknown>'')"

text \<open>An enclosing scope that has nothing to show, around the scope above.\<close>

definition ex_state_nested :: "(string \<times> int) state" where
  "ex_state_nested =
     ex_state\<lparr>scopes :=
       \<lparr>scope = Scope \<lparr>first_line = 8, last_line = 14\<rparr> [SubScope ex_scope],
        bindings = [], expressions = []\<rparr> # scopes ex_state\<rparr>"

text \<open>A scope whose events end the expression 1 twice, at lines 12 and 15.\<close>

definition ex_scope_twice :: "(string \<times> int) scope" where
  "ex_scope_twice =
     Scope \<lparr>first_line = 9, last_line = 16\<rparr>
       [ExprStart 1 ''x + 1'' None 10, ExprDone 1 12 ''R_1'', ExprDone 1 15 ''R_1'']"

definition ex_state_twice :: "(string \<times> int) state" where
  "ex_state_twice =
     \<lparr>property = ex_property,
      scopes = [\<lparr>scope = ex_scope_twice, bindings = [], expressions = [ex_started]\<rparr>]\<rparr>"


section \<open>The trace of the state printer\<close>

text \<open>
  Printing a list of texts through \<^verbatim>\<open>print_info\<close>: the blank line comes once, before
  the first text, when the flag is still set.
\<close>

lemma fold_print_info:
  "fold print_info items (f, out) =
     (f \<and> items = [], out @ (if f \<and> items \<noteq> [] then [Print []] else []) @ map Print items)"
  by (induction items arbitrary: f out) (simp_all add: print_info_def)

lemma print_bindings_items:
  "print_bindings p bs st = fold print_info (map (binding_item p) bs) st"
  by (simp add: print_bindings_def fold_map comp_def binding_item_def)

lemma print_expressions_items:
  "print_expressions p es (ls, st) =
     ((if filter is_started es = [] then ls else Some (last (filter is_started es))),
      fold print_info (map (done_item p) (completed es)) st)"
  unfolding print_expressions_def completed_def
  by (induction es arbitrary: ls st) (simp_all add: done_item_def)

lemma print_last_started_items:
  "print_last_started h
     (if filter is_started es = [] then None else Some (last (filter is_started es))) st =
   fold print_info (current_items h es) st"
  by (simp add: print_last_started_def current_items_def Let_def split: option.splits)

lemma run_scope_fold:
  "run_scope h p ss out = snd (fold print_info (scope_items h p ss) (True, out))"
  by (simp add: run_scope_def print_bindings_items print_expressions_items
        print_last_started_items scope_items_def)

lemma run_scope_items: "run_scope h p ss out = out @ with_blank (scope_items h p ss)"
  by (simp add: run_scope_fold fold_print_info with_blank_def)

lemma fold_run_scope:
  "fold (run_scope h p) sss out =
     out @ concat (map (\<lambda>ss. with_blank (scope_items h p ss)) sss)"
  by (induction sss arbitrary: out) (simp_all add: run_scope_items)

lemma StatePrinter_run_items:
  "state p = Some s \<Longrightarrow>
   StatePrinter_run h p =
     [Print (''Running '' @ name (property s)),
      Print (''from '' @ format_loc h (prop_dsl_sloc (property s)))]
     @ concat (map (\<lambda>ss. with_blank (scope_items h p ss)) (scopes s))"
  by (simp add: StatePrinter_run_def fold_run_scope)

lemma scope_items_nonempty: "[] \<notin> set (scope_items h p ss)"
  by (auto simp: scope_items_def binding_item_def done_item_def current_items_def Let_def
        split: option.splits if_splits)

text \<open>Lower-casing the names of the sample property, computed once.\<close>

lemma lower_Nil: "lower [] = []"
  by (simp add: lower_def)

lemma lower_X_1: "lower ''X_1'' = ''x_1''"
  by code_simp

lemma lower_R_1: "lower ''R_1'' = ''r_1''"
  by code_simp

lemma lower_upper_P: "lower ''P'' = ''p''"
  by code_simp

lemma lower_small_p: "lower ''p'' = ''p''"
  by code_simp

lemma lower_small_q: "lower ''q'' = ''q''"
  by code_simp

text \<open>
  Claim C5. The text of a value as the state printer renders it is the display text of
  the variable read under its lower-cased name. With \<open>with_ellipsis\<close> set and a display
  text longer than 50 characters it is the first 50 characters followed by the marker
  \<open>...\<close>; a display text of at most 50 characters is rendered unchanged; and without
  \<open>with_ellipsis\<close> the display text is rendered unchanged whatever its length.
\<close>

theorem value_image_truncation:
  "(with_ellipsis p \<and> 50 < length (frame p (lower var_name)) \<longrightarrow>
      value_image p var_name = take 50 (frame p (lower var_name)) @ ''...'')
   \<and> (length (frame p (lower var_name)) \<le> 50 \<longrightarrow>
        value_image p var_name = frame p (lower var_name))
   \<and> (\<not> with_ellipsis p \<longrightarrow> value_image p var_name = frame p (lower var_name))"
  by (simp add: value_image_def ellipsis_limit_def)

theorem value_image_truncation_witness:
  "value_image (StatePrinter_init (\<lambda>v. replicate 60 CHR ''a'') (None :: unit state option))
     ''X_1'' = replicate 50 CHR ''a'' @ ''...''
   \<and> value_image (StatePrinter_init (\<lambda>v. ''41'') (None :: unit state option)) ''X_1'' = ''41''
   \<and> value_image
       ((StatePrinter_init (\<lambda>v. replicate 60 CHR ''a'') (None :: unit state option))
          \<lparr>with_ellipsis := False\<rparr>) ''X_1'' = replicate 60 CHR ''a''"
  using value_image_truncation
          [of "StatePrinter_init (\<lambda>v. replicate 60 CHR ''a'') (None :: unit state option)" "''X_1''"]
        value_image_truncation
          [of "StatePrinter_init (\<lambda>v. ''41'') (None :: unit state option)" "''X_1''"]
        value_image_truncation
          [of "(StatePrinter_init (\<lambda>v. replicate 60 CHR ''a'') (None :: unit state option))
                 \<lparr>with_ellipsis := False\<rparr>" "''X_1''"]
  by (simp add: StatePrinter_init_def)

text \<open>
  Claim C6. The storage-name parenthetical of a line is the text \<open>loc_image\<close> puts between
  the name and the separator. In the trace of a state, every binding line and every line
  of a completed expression is name, separator, value when \<open>with_locs\<close> is off, with no
  parenthetical between them; and when \<open>with_locs\<close> is on every such line has the storage
  name in parentheses between the name and the separator.
\<close>

theorem loc_image_in_lines:
  assumes "state p = Some s"
  shows "(\<not> with_locs p \<longrightarrow>
           StatePrinter_run h p =
             [Print (''Running '' @ name (property s)),
              Print (''from '' @ format_loc h (prop_dsl_sloc (property s)))]
             @ concat (map (\<lambda>ss. with_blank
                 (map (\<lambda>b. dsl_name b @ '' = '' @ value_image p (gen_name b)) (bindings ss)
                  @ map (\<lambda>e. expr_repr e @ '' -> '' @ value_image p (result_var e))
                        (completed (expressions ss))
                  @ current_items h (expressions ss))) (scopes s)))
       \<and> (with_locs p \<longrightarrow>
           StatePrinter_run h p =
             [Print (''Running '' @ name (property s)),
              Print (''from '' @ format_loc h (prop_dsl_sloc (property s)))]
             @ concat (map (\<lambda>ss. with_blank
                 (map (\<lambda>b. dsl_name b @ '' ('' @ gen_name b @ '')'' @ '' = ''
                            @ value_image p (gen_name b)) (bindings ss)
                  @ map (\<lambda>e. expr_repr e @ '' ('' @ result_var e @ '')'' @ '' -> ''
                              @ value_image p (result_var e))
                        (completed (expressions ss))
                  @ current_items h (expressions ss))) (scopes s)))"
  using StatePrinter_run_items [OF assms, of h]
  by (simp add: scope_items_def binding_item_def [abs_def] done_item_def [abs_def]
        loc_image_def)

theorem loc_image_in_lines_witness:
  "StatePrinter_run ex_helpers (StatePrinter_init ex_frame (Some ex_state_done)) =
     [Print ''Running P'', Print ''from spec.py:127'', Print [],
      Print ''x = 41'', Print ''x + 1 -> 42'']
   \<and> StatePrinter_run ex_helpers
        ((StatePrinter_init ex_frame (Some ex_state_done))\<lparr>with_locs := True\<rparr>) =
     [Print ''Running P'', Print ''from spec.py:127'', Print [],
      Print ''x (X_1) = 41'', Print ''x + 1 (R_1) -> 42'']"
  using loc_image_in_lines
          [of "StatePrinter_init ex_frame (Some ex_state_done)" ex_state_done ex_helpers]
        loc_image_in_lines
          [of "(StatePrinter_init ex_frame (Some ex_state_done))\<lparr>with_locs := True\<rparr>"
              ex_state_done ex_helpers]
  by (simp add: StatePrinter_init_def ex_state_done_def ex_property_def ex_helpers_def
        ex_done_def ex_started_def ex_frame_def format_loc_def str_int_def digits.simps
        with_blank_def completed_def current_items_def value_image_def ellipsis_limit_def
        lower_X_1 lower_R_1)

text \<open>
  Claim C7. The trace of a state is the two header lines followed, scope by scope from
  the outermost, by what the scope contributes: nothing when the scope has no item to
  print, and otherwise one blank line followed by its items (bindings, completed
  expressions, the expression in progress). No item is itself blank, so the blank line
  before the first item of a scope is the only one the scope gives.
\<close>

theorem one_blank_line_per_scope:
  assumes "state p = Some s"
  shows "StatePrinter_run h p =
           [Print (''Running '' @ name (property s)),
            Print (''from '' @ format_loc h (prop_dsl_sloc (property s)))]
           @ concat (map (\<lambda>ss. if scope_items h p ss = [] then []
                                else Print [] # map Print (scope_items h p ss)) (scopes s))
         \<and> (\<forall>ss\<in>set (scopes s). [] \<notin> set (scope_items h p ss))"
  using StatePrinter_run_items [OF assms, of h]
  by (simp add: with_blank_def scope_items_nonempty)

theorem one_blank_line_per_scope_witness:
  "StatePrinter_run ex_helpers (StatePrinter_init ex_frame (Some ex_state_nested)) =
     [Print ''Running P'', Print ''from spec.py:127'', Print [],
      Print ''x = 41'', Print ''Currently evaluating x + 1'', Print ''from spec.py:128'']"
  using one_blank_line_per_scope
          [of "StatePrinter_init ex_frame (Some ex_state_nested)" ex_state_nested ex_helpers]
  by (simp add: StatePrinter_init_def ex_state_nested_def ex_state_def ex_property_def
        ex_helpers_def ex_started_def ex_frame_def format_loc_def str_int_def digits.simps
        scope_items_def binding_item_def done_item_def loc_image_def
        completed_def current_items_def value_image_def ellipsis_limit_def
        lower_X_1 lower_R_1)


section \<open>The flags of the state command\<close>

lemma set_flags_invalid:
  "find (\<lambda>c. c \<noteq> CHR ''f'' \<and> c \<noteq> CHR ''s'') flags = Some c \<Longrightarrow> set_flags p flags = Inl c"
  by (induction flags arbitrary: p) (auto split: if_splits)

text \<open>
  Claim C8. A non-empty argument of the state command that does not start with \<open>/\<close>
  gives the single message \<open>Invalid argument\<close>. An argument \<open>/\<close> followed by characters
  of which one is neither \<open>f\<close> nor \<open>s\<close> gives the single message \<open>Invalid flag\<close> for the
  first such character. In both cases nothing else is printed, the state least of all.
  The argument \<open>/f\<close> prints the state with the ellipsis off, and \<open>/s\<close> prints it with the
  storage names on.
\<close>

theorem state_command_rejects_bad_flags:
  "(arg \<noteq> [] \<and> hd arg \<noteq> CHR ''/'' \<longrightarrow>
      StateCommand_invoke h fr st arg = [Print ''Invalid argument''])
   \<and> ((\<exists>c\<in>set flags. c \<noteq> CHR ''f'' \<and> c \<noteq> CHR ''s'') \<longrightarrow>
        (\<exists>c. find (\<lambda>c. c \<noteq> CHR ''f'' \<and> c \<noteq> CHR ''s'') flags = Some c
             \<and> StateCommand_invoke h fr st (CHR ''/'' # flags) =
                 [Print (''Invalid flag: '' @ repr_char c)]))
   \<and> StateCommand_invoke h fr st ''/f'' =
       StatePrinter_run h \<lparr>frame = fr, state = st, with_ellipsis = False, with_locs = False\<rparr>
   \<and> StateCommand_invoke h fr st ''/s'' =
       StatePrinter_run h \<lparr>frame = fr, state = st, with_ellipsis = True, with_locs = True\<rparr>"
proof (intro conjI impI)
  assume "arg \<noteq> [] \<and> hd arg \<noteq> CHR ''/''"
  then show "StateCommand_invoke h fr st arg = [Print ''Invalid argument'']"
    by (simp add: StateCommand_invoke_def)
next
  assume "\<exists>c\<in>set flags. c \<noteq> CHR ''f'' \<and> c \<noteq> CHR ''s''"
  then obtain c where c: "find (\<lambda>c. c \<noteq> CHR ''f'' \<and> c \<noteq> CHR ''s'') flags = Some c"
    by (cases "find (\<lambda>c. c \<noteq> CHR ''f'' \<and> c \<noteq> CHR ''s'') flags")
       (auto simp: find_None_iff)
  have "StateCommand_invoke h fr st (CHR ''/'' # flags) =
          [Print (''Invalid flag: '' @ repr_char c)]"
    by (simp add: StateCommand_invoke_def set_flags_invalid [OF c])
  with c show "\<exists>c. find (\<lambda>c. c \<noteq> CHR ''f'' \<and> c \<noteq> CHR ''s'') flags = Some c
             \<and> StateCommand_invoke h fr st (CHR ''/'' # flags) =
                 [Print (''Invalid flag: '' @ repr_char c)]"
    by blast
next
  show "StateCommand_invoke h fr st ''/f'' =
       StatePrinter_run h \<lparr>frame = fr, state = st, with_ellipsis = False, with_locs = False\<rparr>"
    by (simp add: StateCommand_invoke_def StatePrinter_init_def)
next
  show "StateCommand_invoke h fr st ''/s'' =
       StatePrinter_run h \<lparr>frame = fr, state = st, with_ellipsis = True, with_locs = True\<rparr>"
    by (simp add: StateCommand_invoke_def StatePrinter_init_def)
qed

theorem state_command_rejects_bad_flags_witness:
  "StateCommand_invoke ex_helpers ex_frame (Some ex_state) ''x'' = [Print ''Invalid argument'']
   \<and> StateCommand_invoke ex_helpers ex_frame (Some ex_state) ''/fxs'' =
       [Print (''Invalid flag: '' @ [CHR 0x27, CHR ''x'', CHR 0x27])]"
  using state_command_rejects_bad_flags
          [of "''x''" ex_helpers ex_frame "Some ex_state" "''fxs''"]
  by (simp add: repr_char_def)

text \<open>
  Claim C9. The argument that is the single character \<open>/\<close> is not rejected: the command
  prints the state with the ellipsis on and the storage names off, which is what it
  prints for the empty argument.
\<close>

theorem state_command_lone_slash:
  "StateCommand_invoke h fr st ''/'' =
     StatePrinter_run h \<lparr>frame = fr, state = st, with_ellipsis = True, with_locs = False\<rparr>
   \<and> StateCommand_invoke h fr st ''/'' = StateCommand_invoke h fr st []"
  by (simp add: StateCommand_invoke_def StatePrinter_init_def)

theorem state_command_lone_slash_witness:
  "StateCommand_invoke ex_helpers ex_frame (None :: (string \<times> int) state option) ''/'' =
     [Print ''Selected frame is not in a property.'']"
  using state_command_lone_slash [of ex_helpers ex_frame None]
  by (simp add: StatePrinter_run_def)


section \<open>Breakpoints\<close>

text \<open>
  Claim C2. A breakpoint asked for by name: when the name is empty once lower-cased the
  command prints that the specification is missing; when no property has that name, case
  ignored, it prints that there is no such property; when the one property of that name
  has no inner scope it prints that the property has no code; in these cases no
  breakpoint is set. Otherwise the command sets one breakpoint and does nothing else, at
  the first line of the first inner scope of that property, in the generated file.
\<close>

theorem break_on_property_cases:
  "(lower qualname = [] \<longrightarrow>
      break_on_property di qualname = [Print ''Missing breakpoint specification''])
   \<and> (lower qualname \<noteq> []
        \<and> (\<forall>prop\<in>set (properties di). lower (name prop) \<noteq> lower qualname) \<longrightarrow>
      break_on_property di qualname = [Print (''No such property: '' @ qualname)])
   \<and> (lower qualname \<noteq> [] \<and> prop \<in> set (properties di)
        \<and> lower (name prop) = lower qualname
        \<and> (\<forall>prop'\<in>set (properties di). lower (name prop') = lower qualname \<longrightarrow> prop' = prop)
      \<longrightarrow>
        (subscopes prop = [] \<longrightarrow>
           break_on_property di qualname = [Print (name prop @ '' has no code'')])
        \<and> (subscopes prop \<noteq> [] \<longrightarrow>
             break_on_property di qualname =
               [Breakpoint (filename di @ '':''
                            @ str_int (first_line (line_range (hd (subscopes prop)))))]))"
proof (intro conjI impI)
  assume "lower qualname = []"
  then show "break_on_property di qualname = [Print ''Missing breakpoint specification'']"
    by (simp add: break_on_property_def)
next
  assume "lower qualname \<noteq> []
        \<and> (\<forall>prop\<in>set (properties di). lower (name prop) \<noteq> lower qualname)"
  then show "break_on_property di qualname = [Print (''No such property: '' @ qualname)]"
    by (simp add: break_on_property_def find_None_iff [THEN iffD2])
next
  assume a: "lower qualname \<noteq> [] \<and> prop \<in> set (properties di)
        \<and> lower (name prop) = lower qualname
        \<and> (\<forall>prop'\<in>set (properties di). lower (name prop') = lower qualname \<longrightarrow> prop' = prop)"
  have f: "find (\<lambda>prop. lower (name prop) = lower qualname) (properties di) = Some prop"
  proof (cases "find (\<lambda>prop. lower (name prop) = lower qualname) (properties di)")
    case None
    with a show ?thesis by (auto simp: find_None_iff)
  next
    case (Some x)
    then have "x \<in> set (properties di) \<and> lower (name x) = lower qualname"
      by (auto simp: find_Some_iff)
    with a Some show ?thesis by auto
  qed
  {
    assume "subscopes prop = []"
    with a f show "break_on_property di qualname = [Print (name prop @ '' has no code'')]"
      by (simp add: break_on_property_def)
  next
    assume "subscopes prop \<noteq> []"
    with a f show "break_on_property di qualname =
               [Breakpoint (filename di @ '':''
                            @ str_int (first_line (line_range (hd (subscopes prop)))))]"
      by (cases "subscopes prop") (simp_all add: break_on_property_def)
  }
qed

theorem break_on_property_cases_witness:
  "break_on_property ex_debug_info [] = [Print ''Missing breakpoint specification'']
   \<and> break_on_property ex_debug_info ''q'' = [Print ''No such property: q'']
   \<and> break_on_property (ex_debug_info\<lparr>properties := [ex_property\<lparr>subscopes := []\<rparr>]\<rparr>) ''p'' =
       [Print ''P has no code'']
   \<and> break_on_property ex_debug_info ''p'' = [Breakpoint ''gen.adb:9'']"
  using break_on_property_cases [of "[]" ex_debug_info]
        break_on_property_cases [of "''q''" ex_debug_info]
        break_on_property_cases
          [of "''p''" "ex_debug_info\<lparr>properties := [ex_property\<lparr>subscopes := []\<rparr>]\<rparr>"
              "ex_property\<lparr>subscopes := []\<rparr>"]
        break_on_property_cases [of "''p''" ex_debug_info ex_property]
  by (simp add: lower_Nil lower_upper_P lower_small_p lower_small_q ex_debug_info_def
        ex_property_def ex_scope_def str_int_def digits.simps)

text \<open>
  The search appends, to the matches it is given, the matches of the events of the tree
  in their order.
\<close>

lemma process_scope_flat:
    "process_scope h q pr s acc = acc @ concat (map (start_match h q pr) (flatten_scope s))"
  and process_events_flat:
    "process_events h q pr es acc = acc @ concat (map (start_match h q pr) (flatten_events es))"
  and process_event_flat:
    "process_event h q pr e acc = acc @ concat (map (start_match h q pr) (flatten_event e))"
  by (induction h q pr s acc and h q pr es acc and h q pr e acc
      rule: process_scope_process_events_process_event.induct)
     (simp_all add: start_match_def split: option.splits)

lemma fold_process_events:
  "fold (\<lambda>prop matches. process_events h q prop (prop_events prop) matches) props acc =
     acc @ concat (map (\<lambda>prop. concat (map (start_match h q prop)
                                          (flatten_events (prop_events prop)))) props)"
  by (induction props arbitrary: acc) (simp_all add: process_events_flat)

lemma collect_matches_flat: "collect_matches h di q = dsl_sloc_matches h di q"
  by (simp add: collect_matches_def dsl_sloc_matches_def fold_process_events)

text \<open>
  Claim C3. A breakpoint asked for by source location, once the location \<open>q\<close> is parsed:
  the recursive search collects, property after property, the match of every
  \<^verbatim>\<open>ExprStart\<close> event of the scope tree whose location matches \<open>q\<close>. With no match the
  command prints that there is none and sets no breakpoint; with exactly one it sets one
  breakpoint, at the generated line of that event; with two or more it prints a heading
  and then one line for every match, with the name of the property and the location, and
  sets no breakpoint.
\<close>

theorem break_on_dsl_sloc_cases:
  assumes "loc_parse h spec = Inr q"
  shows "collect_matches h di q = dsl_sloc_matches h di q
    \<and> (dsl_sloc_matches h di q = [] \<longrightarrow>
         break_on_dsl_sloc h di spec = ([Print (''No match for '' @ loc_str h q)], Returned))
    \<and> (dsl_sloc_matches h di q = [m] \<longrightarrow>
         break_on_dsl_sloc h di spec =
           ([Breakpoint (filename di @ '':'' @ str_int (match_line_no m))], Returned))
    \<and> (2 \<le> length (dsl_sloc_matches h di q) \<longrightarrow>
         break_on_dsl_sloc h di spec =
           (Print (''Multiple matches for '' @ loc_str h q @ '':'') #
            map (\<lambda>m. Print (''  In '' @ name (match_prop m) @ '', ''
                             @ loc_str h (match_dsl_sloc m))) (dsl_sloc_matches h di q),
            Returned))"
  using assms
  by (auto simp add: break_on_dsl_sloc_def collect_matches_flat Let_def)

theorem break_on_dsl_sloc_cases_witness:
  "break_on_dsl_sloc ex_helpers (ex_debug_info\<lparr>properties := []\<rparr>) ''spec.py:128'' =
     ([Print ''No match for spec.py:128''], Returned)
   \<and> break_on_dsl_sloc ex_helpers ex_debug_info ''spec.py:128'' =
       ([Breakpoint ''gen.adb:10''], Returned)
   \<and> break_on_dsl_sloc ex_helpers (ex_debug_info\<lparr>properties := [ex_property, ex_property]\<rparr>)
        ''spec.py:128'' =
       ([Print ''Multiple matches for spec.py:128:'',
         Print ''  In P, spec.py:128'', Print ''  In P, spec.py:128''], Returned)"
  using break_on_dsl_sloc_cases
          [of ex_helpers "''spec.py:128''" "(''spec.py'', 128)"
              "ex_debug_info\<lparr>properties := []\<rparr>"]
        break_on_dsl_sloc_cases
          [of ex_helpers "''spec.py:128''" "(''spec.py'', 128)" ex_debug_info
              "\<lparr>match_prop = ex_property, match_dsl_sloc = (''spec.py'', 128),
                match_line_no = 10\<rparr>"]
        break_on_dsl_sloc_cases
          [of ex_helpers "''spec.py:128''" "(''spec.py'', 128)"
              "ex_debug_info\<lparr>properties := [ex_property, ex_property]\<rparr>"]
  by (simp add: ex_helpers_def ex_debug_info_def ex_property_def ex_scope_def
        dsl_sloc_matches_def start_match_def str_int_def digits.simps)


section \<open>Stepping out of an expression\<close>

lemma lookup_current_scopes_None:
  "\<forall>ss\<in>set sss. \<forall>e\<in>set (expressions ss). \<not> is_started e \<Longrightarrow> lookup_current_scopes sss = None"
  by (induction sss) (auto simp: find_None_iff split: option.splits)

lemma fold_until_line_no:
  "fold (\<lambda>e until_line_no.
           case e of ExprDone i ln rv \<Rightarrow> if i = eid then Some ln else until_line_no
                   | _ \<Rightarrow> until_line_no) es u =
     (if done_lines es eid = [] then u else Some (last (done_lines es eid)))"
  by (induction es arbitrary: u) (auto simp: done_lines_def split: event.splits)

lemma find_until_line_no_last:
  "find_until_line_no es eid =
     (if done_lines es eid = [] then None else Some (last (done_lines es eid)))"
  by (simp add: find_until_line_no_def fold_until_line_no)

text \<open>
  With a state in which no expression of any scope is started, the command prints that
  nothing is being evaluated and does nothing else.
\<close>

lemma OutCommand_invoke_nothing_started:
  assumes "\<forall>ss\<in>set (scopes s). \<forall>e\<in>set (expressions ss). \<not> is_started e"
  shows "OutCommand_invoke h [] (Some s) new_state new_frame =
           ([Print ''Not evaluating any expression currently''], Returned)"
  using assms
  by (simp add: OutCommand_invoke_def lookup_current_expr_def lookup_current_scopes_None)

text \<open>
  Claim C1. The step-out command with an empty argument is expected to print
  \<open>Not evaluating any expression currently\<close> and to do nothing else both when no state
  is decoded and when no expression of the decoded state is started. When no state is
  decoded the command prints nothing: the lookup of the current expression reads the
  scopes of the state and the command ends with \<^verbatim>\<open>AttributeError\<close>.
\<close>

theorem OutCommand_invoke_no_state:
  "OutCommand_invoke h [] None new_state new_frame = ([], Raised AttributeError)"
  by (simp add: OutCommand_invoke_def lookup_current_expr_def)

text \<open>
  After the target is resumed and a state is decoded again, the first of the three checks
  that fails gives its own message and ends the command.
\<close>

lemma OutCommand_invoke_checks:
  assumes "lookup_current_expr (Some s) = Inr (Some (ss, ce))"
      and "find_until_line_no (events (scope ss)) (expr_id ce) = Some ln"
  shows "(property ns \<noteq> property s \<longrightarrow>
            OutCommand_invoke h [] (Some s) (Some ns) nf =
              ([Execute (''until '' @ str_int ln),
                Print ''ERROR: we landed in another property: something went wrong...''],
               Returned))
       \<and> (property ns = property s \<and> lookup_expr_scopes (scopes ns) (expr_id ce) = None \<longrightarrow>
            OutCommand_invoke h [] (Some s) (Some ns) nf =
              ([Execute (''until '' @ str_int ln),
                Print ''ERROR: cannot find back the same expression: something went wrong...''],
               Returned))
       \<and> (property ns = property s \<and> lookup_expr_scopes (scopes ns) (expr_id ce) = Some ne
            \<and> \<not> is_done ne \<longrightarrow>
            OutCommand_invoke h [] (Some s) (Some ns) nf =
              ([Execute (''until '' @ str_int ln),
                Print ''ERROR: the expression is not evaluated yet: something went wrong...''],
               Returned))"
  using assms
  by (simp add: OutCommand_invoke_def lookup_expr_def error_def)

text \<open>
  Claim C4. After the step-out command has resumed the target, each of the three checks
  on the state decoded again is expected to give its own message when it fails, also
  when no state is decoded. When no state is decoded none of the three messages is
  printed: the lookup of the expression reads the scopes of the new state and the command
  ends with \<^verbatim>\<open>AttributeError\<close>, the target already resumed.
\<close>

theorem OutCommand_invoke_new_state_None:
  "OutCommand_invoke ex_helpers [] (Some ex_state) None ex_frame =
     ([Execute ''until 12''], Raised AttributeError)"
  by (simp add: OutCommand_invoke_def lookup_current_expr_def lookup_expr_def
        find_until_line_no_def ex_state_def ex_scope_def ex_started_def
        str_int_def digits.simps)

text \<open>
  Claim C10. When the events of the scope of the expression in progress hold two or more
  \<^verbatim>\<open>ExprDone\<close> events with the id of that expression, the scan ends on the generated
  line of the last of them in the order of the events, and that is the line the command
  resumes the target to.
\<close>

theorem out_resumes_at_last_done:
  assumes "lookup_current_expr (Some s) = Inr (Some (scope_state, current_expr))"
      and "2 \<le> length (done_lines (events (scope scope_state)) (expr_id current_expr))"
  shows "find_until_line_no (events (scope scope_state)) (expr_id current_expr) =
           Some (last (done_lines (events (scope scope_state)) (expr_id current_expr)))
         \<and> (\<exists>rest oc.
              OutCommand_invoke h [] (Some s) new_state new_frame =
                (Execute (''until '' @ str_int
                    (last (done_lines (events (scope scope_state)) (expr_id current_expr))))
                 # rest, oc))"
proof -
  from assms(2) have ne: "done_lines (events (scope scope_state)) (expr_id current_expr) \<noteq> []"
    by auto
  then have u: "find_until_line_no (events (scope scope_state)) (expr_id current_expr) =
           Some (last (done_lines (events (scope scope_state)) (expr_id current_expr)))"
    by (simp add: find_until_line_no_last)
  have "\<exists>rest oc.
              OutCommand_invoke h [] (Some s) new_state new_frame =
                (Execute (''until '' @ str_int
                    (last (done_lines (events (scope scope_state)) (expr_id current_expr))))
                 # rest, oc)"
    using assms(1) u
    by (simp add: OutCommand_invoke_def Let_def split: sum.splits option.splits)
  with u show ?thesis by simp
qed

theorem out_resumes_at_last_done_witness:
  "find_until_line_no (events ex_scope_twice) 1 = Some 15
   \<and> (\<exists>rest oc. OutCommand_invoke ex_helpers [] (Some ex_state_twice) (Some ex_state_done)
                  ex_frame = (Execute ''until 15'' # rest, oc))"
  using out_resumes_at_last_done
          [of ex_state_twice
              "\<lparr>scope = ex_scope_twice, bindings = [], expressions = [ex_started]\<rparr>"
              ex_started ex_helpers "Some ex_state_done" ex_frame]
  by (simp add: lookup_current_expr_def ex_state_twice_def ex_scope_twice_def ex_started_def
        done_lines_def str_int_def digits.simps)

end
